theory Spec2Isabelle
  imports Main "HOL-Library.Word"
begin

section \<open>The CrowdTaskZ contract\<close>

text \<open>
  A shallow embedding of the Solidity contract \<open>CrowdTaskZ\<close> (pragma 0.8.24).
  Storage mappings are total functions whose unwritten slots hold the zero value of
  their type, as in the EVM. Every \<open>require\<close> that fails, every revert of the FHE
  library and every arithmetic overflow (checked since Solidity 0.8) is a value of
  type \<open>error\<close>; a function body returns \<open>error + CrowdTaskZ\<close>, and a transaction
  that ends in an error leaves the storage and the event log as they were.
\<close>

subsection \<open>Data\<close>

type_synonym address = "160 word"
type_synonym uint256 = "256 word"
type_synonym bytes32 = "256 word"
type_synonym bytes = "8 word list"

text \<open>\<open>euint32\<close> and \<open>externalEuint32\<close> are user-defined value types over \<open>bytes32\<close>.\<close>

type_synonym euint32 = bytes32
type_synonym externalEuint32 = bytes32

record Task =
  title :: string
  encryptedData :: euint32
  rewardAmount :: uint256
  deadline :: uint256
  requester :: address
  isActive :: bool
  isCompleted :: bool

record Worker =
  workerAddress :: address
  reputation :: uint256
  completedTasks :: uint256

datatype event =
    TaskCreated string address
  | TaskAssigned string address
  | TaskCompleted string address

text \<open>
  The contract's storage (\<open>tasks\<close>, \<open>workers\<close>, \<open>taskAssignments\<close>, \<open>taskIds\<close>,
  \<open>workerAddresses\<close>) and the log of the events it has emitted.
  Modelled from the spec: the access-control list of the FHE library is not part of
  the repository; the two grants that \<open>createTask\<close> makes on it (\<open>FHE.allowThis\<close>,
  \<open>FHE.makePubliclyDecryptable\<close>) are recorded in the sets \<open>allowedThis\<close> and
  \<open>publiclyDecryptable\<close> of handles.
\<close>

record CrowdTaskZ =
  tasks :: "string \<Rightarrow> Task"
  workers :: "address \<Rightarrow> Worker"
  taskAssignments :: "string \<Rightarrow> address"
  taskIds :: "string list"
  workerAddresses :: "address list"
  events :: "event list"
  allowedThis :: "euint32 set"
  publiclyDecryptable :: "euint32 set"

definition zeroTask :: Task where
  "zeroTask = \<lparr>title = [], encryptedData = 0, rewardAmount = 0, deadline = 0,
     requester = 0, isActive = False, isCompleted = False\<rparr>"

definition zeroWorker :: Worker where
  "zeroWorker = \<lparr>workerAddress = 0, reputation = 0, completedTasks = 0\<rparr>"

text \<open>The storage after the (empty) constructor.\<close>

definition deployed :: CrowdTaskZ where
  "deployed = \<lparr>tasks = (\<lambda>_. zeroTask), workers = (\<lambda>_. zeroWorker),
     taskAssignments = (\<lambda>_. 0), taskIds = [], workerAddresses = [], events = [],
     allowedThis = {}, publiclyDecryptable = {}\<rparr>"

subsection \<open>Errors\<close>

text \<open>
  One constructor for each \<open>require\<close> of the contract, named as in the error taxonomy,
  two for the reverts of the FHE library (\<open>IngestError\<close> from \<open>FHE.fromExternal\<close>,
  \<open>InvalidProof\<close> from \<open>FHE.checkSignatures\<close>) and \<open>Panic\<close> for the overflow of a
  checked \<open>uint256\<close> addition.
\<close>

datatype error =
    DuplicateKey
  | IngestError
  | InvalidCiphertext
  | AlreadyRegistered
  | NotFound
  | NotActive
  | AlreadyAssigned
  | WorkerNotRegistered
  | NotAssignedWorker
  | AlreadyCompleted
  | DeadlineExceeded
  | InvalidProof
  | Panic

text \<open>The revert string of each \<open>require\<close>; the library's reverts and the panic carry none.\<close>

fun revertString :: "error \<Rightarrow> string" where
  "revertString DuplicateKey = ''Task already exists''"
| "revertString InvalidCiphertext = ''Invalid encrypted input''"
| "revertString AlreadyRegistered = ''Worker already registered''"
| "revertString NotFound = ''Task does not exist''"
| "revertString NotActive = ''Task is not active''"
| "revertString AlreadyAssigned = ''Task already assigned''"
| "revertString WorkerNotRegistered = ''Worker not registered''"
| "revertString NotAssignedWorker = ''Not assigned to this worker''"
| "revertString AlreadyCompleted = ''Task already completed''"
| "revertString DeadlineExceeded = ''Task deadline passed''"
| "revertString IngestError = []"
| "revertString InvalidProof = []"
| "revertString Panic = []"

subsection \<open>The FHE library\<close>

text \<open>
  The library \<open>@fhevm/solidity/lib/FHE.sol\<close> is imported, not part of the repository.
  Its two operations that can revert are parameters of the model:
  \<open>fromExternal L msg_sender h proof\<close> is \<open>None\<close> when \<open>FHE.fromExternal\<close> reverts and
  the verified handle otherwise; \<open>checkSignatures L cts cleartexts proof\<close> is \<open>False\<close>
  when \<open>FHE.checkSignatures\<close> reverts. \<open>FHE.isInitialized\<close> tests the handle against
  zero and \<open>FHE.toBytes32\<close> unwraps it.
\<close>

record FHE =
  fromExternal :: "address \<Rightarrow> externalEuint32 \<Rightarrow> bytes \<Rightarrow> euint32 option"
  checkSignatures :: "bytes32 list \<Rightarrow> bytes \<Rightarrow> bytes \<Rightarrow> bool"

definition isInitialized :: "euint32 \<Rightarrow> bool" where
  "isInitialized h = (h \<noteq> 0)"

definition toBytes32 :: "euint32 \<Rightarrow> bytes32" where
  "toBytes32 h = h"

text \<open>Checked \<open>uint256\<close> addition: \<open>None\<close> is the panic on overflow.\<close>

definition checked_add :: "uint256 \<Rightarrow> uint256 \<Rightarrow> uint256 option" where
  "checked_add a b = (if unat a + unat b < 2 ^ 256 then Some (a + b) else None)"

subsection \<open>The mutating functions\<close>

text \<open>
  \<open>FHE.fromExternal\<close> is called twice in the source with the same arguments (once
  inside the \<open>require\<close>, once in the struct literal); both calls give the same handle.
\<close>

definition createTask ::
  "FHE \<Rightarrow> address \<Rightarrow> string \<Rightarrow> string \<Rightarrow> externalEuint32 \<Rightarrow> bytes \<Rightarrow> uint256 \<Rightarrow> uint256
     \<Rightarrow> CrowdTaskZ \<Rightarrow> error + CrowdTaskZ" where
  "createTask L msg_sender taskId title' encryptedData' inputProof rewardAmount' deadline' s =
    (if \<not> length (title (tasks s taskId)) = 0 then Inl DuplicateKey
     else case fromExternal L msg_sender encryptedData' inputProof of
       None \<Rightarrow> Inl IngestError
     | Some h \<Rightarrow>
        if \<not> isInitialized h then Inl InvalidCiphertext
        else
          let s1 = s\<lparr>tasks := (tasks s)(taskId :=
                     \<lparr>title = title', encryptedData = h, rewardAmount = rewardAmount',
                      deadline = deadline', requester = msg_sender,
                      isActive = True, isCompleted = False\<rparr>)\<rparr>;
              s2 = s1\<lparr>allowedThis := insert (encryptedData (tasks s1 taskId)) (allowedThis s1)\<rparr>;
              s3 = s2\<lparr>publiclyDecryptable :=
                     insert (encryptedData (tasks s2 taskId)) (publiclyDecryptable s2)\<rparr>;
              s4 = s3\<lparr>taskIds := taskIds s3 @ [taskId]\<rparr>
          in Inr (s4\<lparr>events := events s4 @ [TaskCreated taskId msg_sender]\<rparr>))"

definition registerWorker :: "address \<Rightarrow> CrowdTaskZ \<Rightarrow> error + CrowdTaskZ" where
  "registerWorker msg_sender s =
    (if workerAddress (workers s msg_sender) \<noteq> 0 then Inl AlreadyRegistered
     else
       let s1 = s\<lparr>workers := (workers s)(msg_sender :=
                  \<lparr>workerAddress = msg_sender, reputation = 0, completedTasks = 0\<rparr>)\<rparr>
       in Inr (s1\<lparr>workerAddresses := workerAddresses s1 @ [msg_sender]\<rparr>))"

definition assignTask :: "address \<Rightarrow> string \<Rightarrow> CrowdTaskZ \<Rightarrow> error + CrowdTaskZ" where
  "assignTask msg_sender taskId s =
    (if \<not> 0 < length (title (tasks s taskId)) then Inl NotFound
     else if \<not> isActive (tasks s taskId) then Inl NotActive
     else if taskAssignments s taskId \<noteq> 0 then Inl AlreadyAssigned
     else if workerAddress (workers s msg_sender) = 0 then Inl WorkerNotRegistered
     else
       let s1 = s\<lparr>taskAssignments := (taskAssignments s)(taskId := msg_sender)\<rparr>
       in Inr (s1\<lparr>events := events s1 @ [TaskAssigned taskId msg_sender]\<rparr>))"

definition submitTaskResult ::
  "FHE \<Rightarrow> address \<Rightarrow> uint256 \<Rightarrow> string \<Rightarrow> bytes \<Rightarrow> bytes \<Rightarrow> CrowdTaskZ \<Rightarrow> error + CrowdTaskZ" where
  "submitTaskResult L msg_sender block_timestamp taskId abiEncodedResult computationProof s =
    (if \<not> 0 < length (title (tasks s taskId)) then Inl NotFound
     else if taskAssignments s taskId \<noteq> msg_sender then Inl NotAssignedWorker
     else if isCompleted (tasks s taskId) then Inl AlreadyCompleted
     else if \<not> block_timestamp \<le> deadline (tasks s taskId) then Inl DeadlineExceeded
     else
       let cts = [toBytes32 (encryptedData (tasks s taskId))] in
       if \<not> checkSignatures L cts abiEncodedResult computationProof then Inl InvalidProof
       else
         let s1 = s\<lparr>tasks := (tasks s)(taskId := (tasks s taskId)\<lparr>isCompleted := True\<rparr>)\<rparr>;
             s2 = s1\<lparr>tasks := (tasks s1)(taskId := (tasks s1 taskId)\<lparr>isActive := False\<rparr>)\<rparr>
         in (case checked_add (completedTasks (workers s2 msg_sender)) 1 of
           None \<Rightarrow> Inl Panic
         | Some c \<Rightarrow>
            (let s3 = s2\<lparr>workers := (workers s2)(msg_sender :=
                       (workers s2 msg_sender)\<lparr>completedTasks := c\<rparr>)\<rparr>
             in (case checked_add (reputation (workers s3 msg_sender)) 10 of
               None \<Rightarrow> Inl Panic
             | Some r \<Rightarrow>
                (let s4 = s3\<lparr>workers := (workers s3)(msg_sender :=
                           (workers s3 msg_sender)\<lparr>reputation := r\<rparr>)\<rparr>
                 in Inr (s4\<lparr>events := events s4 @ [TaskCompleted taskId msg_sender]\<rparr>))))))"

subsection \<open>The views\<close>

definition getTask ::
  "string \<Rightarrow> CrowdTaskZ \<Rightarrow> error + (string \<times> uint256 \<times> uint256 \<times> address \<times> bool \<times> bool)" where
  "getTask taskId s =
    (if \<not> 0 < length (title (tasks s taskId)) then Inl NotFound
     else
       let task = tasks s taskId
       in Inr (title task, rewardAmount task, deadline task, requester task,
               isActive task, isCompleted task))"

definition getWorker :: "address \<Rightarrow> CrowdTaskZ \<Rightarrow> error + (uint256 \<times> uint256)" where
  "getWorker workerAddress' s =
    (if workerAddress (workers s workerAddress') = 0 then Inl WorkerNotRegistered
     else
       let worker = workers s workerAddress'
       in Inr (reputation worker, completedTasks worker))"

definition getAllTaskIds :: "CrowdTaskZ \<Rightarrow> string list" where
  "getAllTaskIds s = taskIds s"

definition getAllWorkers :: "CrowdTaskZ \<Rightarrow> address list" where
  "getAllWorkers s = workerAddresses s"

subsection \<open>Transactions\<close>

text \<open>
  A transaction is a call of one of the four external mutating functions, with the
  \<open>msg.sender\<close> and the \<open>block.timestamp\<close> it runs under. \<open>exec\<close> runs the body;
  \<open>transact\<close> is what the chain keeps: the new state when the body returns, the old
  one when it reverts. \<open>run\<close> applies a sequence of transactions in order, and the
  reachable states are \<open>run L deployed txs\<close>.
\<close>

datatype call =
    CreateTask string string externalEuint32 bytes uint256 uint256
  | RegisterWorker
  | AssignTask string
  | SubmitTaskResult string bytes bytes

record tx =
  sender :: address
  timestamp :: uint256
  call :: call

fun dispatch :: "FHE \<Rightarrow> address \<Rightarrow> uint256 \<Rightarrow> call \<Rightarrow> CrowdTaskZ \<Rightarrow> error + CrowdTaskZ" where
  "dispatch L a t (CreateTask taskId title' e p r d) s = createTask L a taskId title' e p r d s"
| "dispatch L a t RegisterWorker s = registerWorker a s"
| "dispatch L a t (AssignTask taskId) s = assignTask a taskId s"
| "dispatch L a t (SubmitTaskResult taskId res p) s = submitTaskResult L a t taskId res p s"

definition exec :: "FHE \<Rightarrow> CrowdTaskZ \<Rightarrow> tx \<Rightarrow> error + CrowdTaskZ" where
  "exec L s x = dispatch L (sender x) (timestamp x) (call x) s"

definition transact :: "FHE \<Rightarrow> CrowdTaskZ \<Rightarrow> tx \<Rightarrow> CrowdTaskZ" where
  "transact L s x = (case exec L s x of Inl _ \<Rightarrow> s | Inr s' \<Rightarrow> s')"

definition run :: "FHE \<Rightarrow> CrowdTaskZ \<Rightarrow> tx list \<Rightarrow> CrowdTaskZ" where
  "run L s xs = foldl (transact L) s xs"

subsection \<open>The order of the checks of \<open>assignTask\<close>, as the specification words it\<close>

text \<open>
  The preconditions of \<open>assignTask\<close> in the order the specification lists them, each
  with the error of its violation: the task exists, the task is in phase Active, no
  assignment exists for the key, the worker is registered. \<open>first_failure\<close> is the
  error of the first precondition of a list that does not hold.
\<close>

definition assignTask_preconditions ::
  "address \<Rightarrow> string \<Rightarrow> CrowdTaskZ \<Rightarrow> (bool \<times> error) list" where
  "assignTask_preconditions a k s =
     [(title (tasks s k) \<noteq> [], NotFound),
      (isActive (tasks s k), NotActive),
      (taskAssignments s k = 0, AlreadyAssigned),
      (workerAddress (workers s a) \<noteq> 0, WorkerNotRegistered)]"

fun first_failure :: "(bool \<times> error) list \<Rightarrow> error option" where
  "first_failure [] = None"
| "first_failure ((ok, e) # ps) = (if ok then first_failure ps else Some e)"

subsection \<open>A sample library and sample transactions\<close>

text \<open>
  A concrete instance of the library's two parameters, for evaluating the model on
  examples: ingest accepts every non-empty input proof and returns the external handle
  as it is; an opening is accepted when the proof repeats the encoded cleartext.
  The transactions are those of the end-to-end scenario: address 1 creates task
  \<open>t1\<close> with reward 100 and deadline 3700 at time 100, address 2 registers, takes the
  task and submits the cleartext 42.
\<close>

definition sampleFHE :: FHE where
  "sampleFHE = \<lparr>fromExternal = (\<lambda>a h p. if p = [] then None else Some h),
     checkSignatures = (\<lambda>cts r p. p = r)\<rparr>"

definition tx_create :: tx where
  "tx_create = \<lparr>sender = 1, timestamp = 100,
     call = CreateTask ''t1'' ''label'' 7 [1] 100 3700\<rparr>"

definition tx_register :: tx where
  "tx_register = \<lparr>sender = 2, timestamp = 101, call = RegisterWorker\<rparr>"

definition tx_assign :: tx where
  "tx_assign = \<lparr>sender = 2, timestamp = 102, call = AssignTask ''t1''\<rparr>"

definition tx_submit :: tx where
  "tx_submit = \<lparr>sender = 2, timestamp = 103, call = SubmitTaskResult ''t1'' [42] [42]\<rparr>"

definition assigned :: CrowdTaskZ where
  "assigned = run sampleFHE deployed [tx_create, tx_register, tx_assign]"

definition tx_register3 :: tx where
  "tx_register3 = \<lparr>sender = 3, timestamp = 104, call = RegisterWorker\<rparr>"

definition tx_steal :: tx where
  "tx_steal = \<lparr>sender = 3, timestamp = 105, call = AssignTask ''t1''\<rparr>"

text \<open>A task created with an empty title under the key \<open>t2\<close>, and a second creation under that key.\<close>

definition tx_create_untitled :: tx where
  "tx_create_untitled = \<lparr>sender = 1, timestamp = 100,
     call = CreateTask ''t2'' [] 7 [1] 100 3700\<rparr>"

definition tx_create_again :: tx where
  "tx_create_again = \<lparr>sender = 3, timestamp = 200,
     call = CreateTask ''t2'' ''other'' 9 [1] 5 9999\<rparr>"

subsection \<open>Invariants of the storage\<close>

text \<open>
  \<open>flags_ok\<close>: no task is active and completed at once, and a completed task has a
  title. \<open>assignments_ok\<close>: the zero address is never a registered worker, and a key
  with an assignee has a title. \<open>counters_ok n\<close>: no worker has completed more than
  \<open>n\<close> tasks, and a worker's reputation is ten times that count.
\<close>

definition flags_ok :: "CrowdTaskZ \<Rightarrow> bool" where
  "flags_ok s \<longleftrightarrow>
     (\<forall>k. \<not> (isActive (tasks s k) \<and> isCompleted (tasks s k))
        \<and> (isCompleted (tasks s k) \<longrightarrow> title (tasks s k) \<noteq> []))"

definition assignments_ok :: "CrowdTaskZ \<Rightarrow> bool" where
  "assignments_ok s \<longleftrightarrow>
     workerAddress (workers s 0) = 0
     \<and> (\<forall>k. taskAssignments s k \<noteq> 0 \<longrightarrow> title (tasks s k) \<noteq> [])"

definition counters_ok :: "nat \<Rightarrow> CrowdTaskZ \<Rightarrow> bool" where
  "counters_ok n s \<longleftrightarrow>
     (\<forall>a. unat (completedTasks (workers s a)) \<le> n
        \<and> unat (reputation (workers s a)) = 10 * unat (completedTasks (workers s a)))"

section \<open>Properties\<close>

lemmas sample_defs = sampleFHE_def tx_create_def tx_register_def tx_assign_def tx_submit_def
  deployed_def zeroTask_def zeroWorker_def assigned_def

lemmas body_defs = createTask_def registerWorker_def assignTask_def submitTaskResult_def
  isInitialized_def toBytes32_def checked_add_def Let_def

lemmas tx_defs = run_def transact_def exec_def

lemmas fun_defs = createTask_def registerWorker_def assignTask_def submitTaskResult_def
  isInitialized_def toBytes32_def Let_def

lemma checked_add_Some:
  "checked_add a b = Some c \<Longrightarrow> c = a + b \<and> unat c = unat a + unat b"
  by (auto simp: checked_add_def unat_word_ariths split: if_splits)

lemma run_Nil: "run L s [] = s"
  by (simp add: run_def)

lemma run_Cons: "run L s (x # xs) = run L (transact L s x) xs"
  by (simp add: run_def)

lemma transact_cases:
  assumes "P s" and "\<And>s'. exec L s x = Inr s' \<Longrightarrow> P s'"
  shows "P (transact L s x)"
  using assms by (cases "exec L s x") (simp_all add: transact_def)

lemma run_invariant:
  assumes "P s" and "\<And>s x s'. P s \<Longrightarrow> exec L s x = Inr s' \<Longrightarrow> P s'"
  shows "P (run L s xs)"
  using assms(1)
proof (induction xs arbitrary: s)
  case Nil
  then show ?case by (simp add: run_Nil)
next
  case (Cons x xs)
  have "P (transact L s x)"
  proof (rule transact_cases)
    show "P s" by (rule Cons.prems)
  next
    fix s' assume "exec L s x = Inr s'"
    with Cons.prems show "P s'" by (rule assms(2))
  qed
  then show ?case by (simp add: run_Cons Cons.IH)
qed

subsection \<open>Creating a task twice\<close>

text \<open>A second creation under a key whose first creation stored a non-empty title is rejected.\<close>

lemma createTask_duplicate_rejected:
  assumes "createTask L a k title' e p r d s = Inr s1" and "title' \<noteq> []"
  shows "createTask L a' k title'' e' p' r' d' s1 = Inl DuplicateKey"
  using assms
  by (auto simp: body_defs split: if_splits option.splits)

text \<open>
  Claim C1. A second \<open>createTask\<close> with the key of an earlier one is meant to fail
  with \<open>DuplicateKey\<close> and to change nothing. The contract tests existence by the
  length of the stored title, so after a first creation with the empty title the second
  creation succeeds: here the record of \<open>t2\<close> is overwritten (the requester changes
  from address 1 to address 3) and \<open>taskIds\<close> holds the key twice.
\<close>

theorem createTask_twice_overwrites:
  "\<not> isl (exec sampleFHE deployed tx_create_untitled)
 \<and> \<not> isl (exec sampleFHE (run sampleFHE deployed [tx_create_untitled]) tx_create_again)
 \<and> requester (tasks (run sampleFHE deployed [tx_create_untitled]) ''t2'') = 1
 \<and> requester (tasks (run sampleFHE deployed [tx_create_untitled, tx_create_again]) ''t2'') = 3
 \<and> taskIds (run sampleFHE deployed [tx_create_untitled, tx_create_again]) = [''t2'', ''t2'']"
  by (simp add: tx_create_untitled_def tx_create_again_def sample_defs body_defs tx_defs)

subsection \<open>Events\<close>

text \<open>
  \<open>registerWorker\<close> succeeds on the fresh contract and emits nothing: not every
  mutating function emits an event when it succeeds.
\<close>

theorem registerWorker_emits_nothing:
  "(case registerWorker 2 deployed of Inl _ \<Rightarrow> False | Inr s' \<Rightarrow> events s' = events deployed)"
  by (simp add: registerWorker_def deployed_def zeroWorker_def Let_def)

text \<open>
  Claim C2, amended. A transaction appends to the event log exactly one event when it
  is a successful \<open>createTask\<close> (\<open>TaskCreated\<close>), \<open>assignTask\<close> (\<open>TaskAssigned\<close>) or
  \<open>submitTaskResult\<close> (\<open>TaskCompleted\<close>), each with the task key and the caller, and
  nothing when it is a successful \<open>registerWorker\<close> or when it fails.
\<close>

theorem events_of_transaction:
  "events (transact L s x) = events s @
     (case exec L s x of
        Inl _ \<Rightarrow> []
      | Inr _ \<Rightarrow>
         (case call x of
            CreateTask k _ _ _ _ _ \<Rightarrow> [TaskCreated k (sender x)]
          | RegisterWorker \<Rightarrow> []
          | AssignTask k \<Rightarrow> [TaskAssigned k (sender x)]
          | SubmitTaskResult k _ _ \<Rightarrow> [TaskCompleted k (sender x)]))"
  by (cases "call x")
     (auto simp: transact_def exec_def body_defs split: option.splits)

theorem events_of_transaction_witness:
  "events (transact sampleFHE assigned tx_submit) = events assigned @ [TaskCompleted ''t1'' 2]
 \<and> events (transact sampleFHE assigned tx_register) = events assigned"
  using events_of_transaction [of sampleFHE assigned tx_submit]
    events_of_transaction [of sampleFHE assigned tx_register]
  by (simp add: sample_defs body_defs tx_defs)

subsection \<open>What a successful submission stores\<close>

text \<open>
  Two submissions with different cleartexts that the library both accepts leave the
  same state: the cleartext is stored nowhere, and \<open>Task\<close> has no field for it.
\<close>

theorem cleartext_not_stored:
  "\<not> isl (submitTaskResult sampleFHE 2 103 ''t1'' [42] [42] assigned)
   \<and> submitTaskResult sampleFHE 2 103 ''t1'' [43] [43] assigned
     = submitTaskResult sampleFHE 2 103 ''t1'' [42] [42] assigned"
  by (simp add: sample_defs body_defs tx_defs)

text \<open>
  Claim C3, amended. A \<open>submitTaskResult\<close> succeeds only when the library accepts
  the proof for the task's handle and the claimed cleartext; it changes no field of the
  task but \<open>isCompleted\<close> (set) and \<open>isActive\<close> (cleared), and the state it leaves
  does not depend on the cleartext and the proof: every other accepted submission in
  the same state leaves the same state.
\<close>

theorem submitTaskResult_task_effect:
  assumes "submitTaskResult L a now k res pf s = Inr s'"
  shows "checkSignatures L [toBytes32 (encryptedData (tasks s k))] res pf
       \<and> tasks s' = (tasks s)(k := (tasks s k)\<lparr>isCompleted := True, isActive := False\<rparr>)
       \<and> (\<not> isl (submitTaskResult L a now k res' pf' s) \<longrightarrow>
            submitTaskResult L a now k res' pf' s = Inr s')"
  using assms
  by (auto simp: submitTaskResult_def Let_def split: if_splits option.splits)

theorem submitTaskResult_task_effect_witness:
  "tasks (transact sampleFHE assigned tx_submit) ''t1''
     = (tasks assigned ''t1'')\<lparr>isCompleted := True, isActive := False\<rparr>
   \<and> submitTaskResult sampleFHE 2 103 ''t1'' [43] [43] assigned
     = Inr (transact sampleFHE assigned tx_submit)"
proof -
  have a: "submitTaskResult sampleFHE 2 103 ''t1'' [42] [42] assigned
             = Inr (transact sampleFHE assigned tx_submit)"
    by (simp add: sample_defs body_defs tx_defs)
  have b: "\<not> isl (submitTaskResult sampleFHE 2 103 ''t1'' [43] [43] assigned)"
    by (simp add: sample_defs body_defs tx_defs)
  from submitTaskResult_task_effect [OF a, of "[43]" "[43]"] b show ?thesis by simp
qed

subsection \<open>The phase flags\<close>

lemma flags_ok_deployed: "flags_ok deployed"
  by (simp add: flags_ok_def deployed_def zeroTask_def)

lemma flags_ok_exec:
  assumes "flags_ok s" and "exec L s x = Inr s'"
  shows "flags_ok s'"
  using assms
  by (cases "call x")
     (auto simp: exec_def fun_defs flags_ok_def split: if_splits option.splits)

lemma flags_ok_run: "flags_ok s \<Longrightarrow> flags_ok (run L s xs)"
  by (rule run_invariant) (auto intro: flags_ok_exec)

lemma completed_exec:
  assumes "flags_ok s" and "isCompleted (tasks s k)" and "exec L s x = Inr s'"
  shows "isCompleted (tasks s' k)"
  using assms
  by (cases "call x")
     (auto simp: exec_def fun_defs flags_ok_def split: if_splits option.splits)

lemma completed_run:
  "flags_ok s \<and> isCompleted (tasks s k) \<Longrightarrow> isCompleted (tasks (run L s xs) k)"
  by (rule conjunct2, rule run_invariant [where P = "\<lambda>s. flags_ok s \<and> isCompleted (tasks s k)"])
     (auto intro: flags_ok_exec completed_exec)

text \<open>
  Claim C4. In every state reached from the deployed contract by a sequence of
  transactions, no task is active and completed at once; and a task that is completed
  in such a state is completed after every further sequence of transactions.
\<close>

theorem flags_exclusive_completion_final:
  "\<not> (isActive (tasks (run L deployed xs) k) \<and> isCompleted (tasks (run L deployed xs) k))
   \<and> (isCompleted (tasks (run L deployed xs) k) \<longrightarrow>
        isCompleted (tasks (run L (run L deployed xs) ys) k))"
proof -
  have ok: "flags_ok (run L deployed xs)"
    by (rule flags_ok_run) (rule flags_ok_deployed)
  then have "\<not> (isActive (tasks (run L deployed xs) k) \<and> isCompleted (tasks (run L deployed xs) k))"
    by (simp add: flags_ok_def)
  moreover from ok have "isCompleted (tasks (run L deployed xs) k) \<longrightarrow>
        isCompleted (tasks (run L (run L deployed xs) ys) k)"
    by (auto intro: completed_run)
  ultimately show ?thesis by simp
qed

theorem flags_exclusive_completion_final_witness:
  "isCompleted (tasks (run sampleFHE deployed [tx_create, tx_register, tx_assign, tx_submit]) ''t1'')
 \<and> \<not> isActive (tasks (run sampleFHE deployed [tx_create, tx_register, tx_assign, tx_submit]) ''t1'')
 \<and> isCompleted (tasks (run sampleFHE
        (run sampleFHE deployed [tx_create, tx_register, tx_assign, tx_submit])
        [tx_create, tx_submit]) ''t1'')"
proof -
  have a: "isCompleted (tasks (run sampleFHE deployed [tx_create, tx_register, tx_assign, tx_submit]) ''t1'')"
    by (simp add: sample_defs body_defs tx_defs)
  from flags_exclusive_completion_final
    [of sampleFHE "[tx_create, tx_register, tx_assign, tx_submit]" "''t1''" "[tx_create, tx_submit]"] a
  show ?thesis by simp
qed

subsection \<open>A successful submission\<close>

lemma assignments_ok_deployed: "assignments_ok deployed"
  by (simp add: assignments_ok_def deployed_def zeroTask_def zeroWorker_def)

lemma assignments_ok_exec:
  assumes "assignments_ok s" and "exec L s x = Inr s'"
  shows "assignments_ok s'"
  using assms
  by (cases "call x")
     (auto simp: exec_def fun_defs assignments_ok_def split: if_splits option.splits)

lemma assignments_ok_run: "assignments_ok s \<Longrightarrow> assignments_ok (run L s xs)"
  by (rule run_invariant) (auto intro: assignments_ok_exec)

lemma assignment_exec:
  assumes "taskAssignments s k \<noteq> 0" and "exec L s x = Inr s'"
  shows "taskAssignments s' k = taskAssignments s k"
  using assms
  by (cases "call x")
     (auto simp: exec_def fun_defs split: if_splits option.splits)

lemma assignment_run:
  assumes "taskAssignments s k \<noteq> 0"
  shows "taskAssignments (run L s xs) k = taskAssignments s k"
proof -
  have "taskAssignments (run L s xs) k \<noteq> 0
      \<and> taskAssignments (run L s xs) k = taskAssignments s k"
    by (rule run_invariant
          [where P = "\<lambda>t. taskAssignments t k \<noteq> 0 \<and> taskAssignments t k = taskAssignments s k"])
       (use assms in \<open>auto dest: assignment_exec\<close>)
  then show ?thesis by simp
qed

lemma assignTask_Inr:
  assumes "assignTask w k s = Inr s1"
  shows "taskAssignments s1 k = w \<and> workerAddress (workers s w) \<noteq> 0"
  using assms by (auto simp: assignTask_def Let_def split: if_splits)

lemma counters_ok_deployed: "counters_ok 0 deployed"
  by (simp add: counters_ok_def deployed_def zeroWorker_def)

lemma counters_ok_exec:
  assumes "counters_ok n s" and "exec L s x = Inr s'"
  shows "counters_ok (Suc n) s'"
proof (cases "call x")
  case (SubmitTaskResult k res pf)
  with assms show ?thesis
    by (auto simp: exec_def fun_defs counters_ok_def le_Suc_eq
             split: if_splits option.splits dest!: checked_add_Some)
next
  case RegisterWorker
  with assms show ?thesis
    by (auto simp: exec_def fun_defs counters_ok_def le_Suc_eq split: if_splits)
next
  case (AssignTask k)
  with assms show ?thesis
    by (auto simp: exec_def fun_defs counters_ok_def le_Suc_eq split: if_splits)
next
  case (CreateTask k t e p r d)
  with assms show ?thesis
    by (auto simp: exec_def fun_defs counters_ok_def le_Suc_eq split: if_splits option.splits)
qed

lemma counters_ok_transact:
  assumes "counters_ok n s"
  shows "counters_ok (Suc n) (transact L s x)"
proof (cases "exec L s x")
  case (Inl e)
  with assms show ?thesis
    by (auto simp: transact_def counters_ok_def le_Suc_eq)
next
  case (Inr s')
  with assms show ?thesis
    by (simp add: transact_def counters_ok_exec)
qed

lemma counters_ok_run:
  "counters_ok n s \<Longrightarrow> counters_ok (n + length xs) (run L s xs)"
proof (induction xs arbitrary: n s)
  case Nil
  then show ?case by (simp add: run_Nil)
next
  case (Cons x xs)
  from Cons.prems have "counters_ok (Suc n) (transact L s x)"
    by (rule counters_ok_transact)
  from Cons.IH [OF this] show ?case by (simp add: run_Cons)
qed

lemma submitTaskResult_succeeds:
  assumes "0 < length (title (tasks s k))" and "taskAssignments s k = w"
    and "\<not> isCompleted (tasks s k)" and "now \<le> deadline (tasks s k)"
    and "checkSignatures L [toBytes32 (encryptedData (tasks s k))] res pf"
    and "unat (completedTasks (workers s w)) + 1 < 2 ^ 256"
    and "unat (reputation (workers s w)) + 10 < 2 ^ 256"
  shows "\<exists>s'. submitTaskResult L w now k res pf s = Inr s'"
  using assms
  by (auto simp: submitTaskResult_def Let_def checked_add_def)

lemma submitTaskResult_Inr:
  assumes "submitTaskResult L w now k res pf s = Inr s'"
  shows "isCompleted (tasks s' k) \<and> \<not> isActive (tasks s' k)
       \<and> unat (completedTasks (workers s' w)) = unat (completedTasks (workers s w)) + 1
       \<and> unat (reputation (workers s' w)) = unat (reputation (workers s w)) + 10
       \<and> events s' = events s @ [TaskCompleted k w]"
  using assms
  by (auto simp: submitTaskResult_def Let_def split: if_splits option.splits
           dest!: checked_add_Some)

text \<open>
  Claim C5. In a state reached from the deployed contract (by fewer than \<open>2 ^ 252\<close>
  transactions, so that no counter is near \<open>2 ^ 256\<close>), when the task under key \<open>k\<close>
  is assigned to the worker \<open>w\<close>, is not completed, the time is at most the deadline
  and the library accepts the proof, \<open>submitTaskResult\<close> called by \<open>w\<close> succeeds;
  afterwards the task is completed and not active, \<open>completedTasks\<close> of \<open>w\<close> is one
  more, \<open>reputation\<close> of \<open>w\<close> is ten more, and exactly one event,
  \<open>TaskCompleted k w\<close>, has been appended to the log.
\<close>

theorem submitTaskResult_completes:
  assumes "s = run L deployed xs" and "length xs < 2 ^ 252"
    and "taskAssignments s k = w" and "w \<noteq> 0"
    and "\<not> isCompleted (tasks s k)" and "now \<le> deadline (tasks s k)"
    and "checkSignatures L [toBytes32 (encryptedData (tasks s k))] res pf"
  shows "\<exists>s'. submitTaskResult L w now k res pf s = Inr s'
       \<and> isCompleted (tasks s' k) \<and> \<not> isActive (tasks s' k)
       \<and> unat (completedTasks (workers s' w)) = unat (completedTasks (workers s w)) + 1
       \<and> unat (reputation (workers s' w)) = unat (reputation (workers s w)) + 10
       \<and> events s' = events s @ [TaskCompleted k w]"
proof -
  have "assignments_ok s"
    unfolding assms(1) by (rule assignments_ok_run) (rule assignments_ok_deployed)
  with assms(3,4) have exists: "0 < length (title (tasks s k))"
    by (auto simp: assignments_ok_def)
  have "counters_ok (0 + length xs) s"
    unfolding assms(1) by (rule counters_ok_run) (rule counters_ok_deployed)
  then have c: "unat (completedTasks (workers s w)) \<le> length xs"
    and r: "unat (reputation (workers s w)) = 10 * unat (completedTasks (workers s w))"
    by (simp_all add: counters_ok_def)
  have big: "(10::nat) * 2 ^ 252 + 10 < 2 ^ 256" by simp
  from c assms(2) have c': "unat (completedTasks (workers s w)) < 2 ^ 252" by simp
  with big have "unat (completedTasks (workers s w)) + 1 < 2 ^ 256" by linarith
  moreover from c' r big have "unat (reputation (workers s w)) + 10 < 2 ^ 256" by linarith
  ultimately obtain s' where ok: "submitTaskResult L w now k res pf s = Inr s'"
    using submitTaskResult_succeeds [OF exists assms(3,5,6,7)] by blast
  from submitTaskResult_Inr [OF ok] ok show ?thesis by blast
qed

theorem submitTaskResult_completes_witness:
  "isCompleted (tasks (transact sampleFHE assigned tx_submit) ''t1'')
   \<and> \<not> isActive (tasks (transact sampleFHE assigned tx_submit) ''t1'')
   \<and> getWorker 2 assigned = Inr (0, 0)
   \<and> getWorker 2 (transact sampleFHE assigned tx_submit) = Inr (10, 1)
   \<and> events (transact sampleFHE assigned tx_submit) = events assigned @ [TaskCompleted ''t1'' 2]"
proof -
  have a: "assigned = run sampleFHE deployed [tx_create, tx_register, tx_assign]"
    by (simp add: assigned_def)
  have b: "length [tx_create, tx_register, tx_assign] < 2 ^ 252" by simp
  have c: "taskAssignments assigned ''t1'' = 2" and d: "(2::address) \<noteq> 0"
    and e: "\<not> isCompleted (tasks assigned ''t1'')"
    and f: "103 \<le> deadline (tasks assigned ''t1'')"
    and g: "checkSignatures sampleFHE [toBytes32 (encryptedData (tasks assigned ''t1''))] [42] [42]"
    by (simp_all add: sample_defs body_defs tx_defs)
  have h: "submitTaskResult sampleFHE 2 103 ''t1'' [42] [42] assigned
             = Inr (transact sampleFHE assigned tx_submit)"
    by (simp add: sample_defs body_defs tx_defs)
  have i: "getWorker 2 assigned = Inr (0, 0)"
    "getWorker 2 (transact sampleFHE assigned tx_submit) = Inr (10, 1)"
    by (simp_all add: getWorker_def sample_defs body_defs tx_defs)
  from submitTaskResult_completes [OF a b c d e f g] h i show ?thesis by auto
qed

subsection \<open>A failed submission\<close>

text \<open>
  Claim C6. A \<open>submitTaskResult\<close> transaction that fails, with whichever error,
  leaves the whole state as it was, so \<open>getTask\<close> answers the same on every key
  before and after it; the error is one of \<open>NotFound\<close>, \<open>NotAssignedWorker\<close>,
  \<open>AlreadyCompleted\<close>, \<open>DeadlineExceeded\<close>, \<open>InvalidProof\<close> or the overflow panic.
\<close>

theorem failed_submitTaskResult_changes_nothing:
  assumes "call x = SubmitTaskResult k res pf" and "exec L s x = Inl e"
  shows "transact L s x = s
       \<and> getTask k' (transact L s x) = getTask k' s
       \<and> e \<in> {NotFound, NotAssignedWorker, AlreadyCompleted, DeadlineExceeded, InvalidProof, Panic}"
proof -
  from assms(2) have "transact L s x = s"
    by (simp add: transact_def)
  moreover from assms
  have "e \<in> {NotFound, NotAssignedWorker, AlreadyCompleted, DeadlineExceeded, InvalidProof, Panic}"
    by (auto simp: exec_def submitTaskResult_def Let_def split: if_splits option.splits)
  ultimately show ?thesis by simp
qed

theorem failed_submitTaskResult_changes_nothing_witness:
  "exec sampleFHE assigned (tx_submit\<lparr>call := SubmitTaskResult ''t1'' [42] [41]\<rparr>) = Inl InvalidProof
   \<and> transact sampleFHE assigned (tx_submit\<lparr>call := SubmitTaskResult ''t1'' [42] [41]\<rparr>) = assigned
   \<and> getTask ''t1'' (transact sampleFHE assigned (tx_submit\<lparr>call := SubmitTaskResult ''t1'' [42] [41]\<rparr>))
       = getTask ''t1'' assigned"
proof -
  have a: "call (tx_submit\<lparr>call := SubmitTaskResult ''t1'' [42] [41]\<rparr>) = SubmitTaskResult ''t1'' [42] [41]"
    by simp
  have b: "exec sampleFHE assigned (tx_submit\<lparr>call := SubmitTaskResult ''t1'' [42] [41]\<rparr>) = Inl InvalidProof"
    by (simp add: sample_defs body_defs tx_defs)
  from failed_submitTaskResult_changes_nothing [OF a b, of "''t1''"] b show ?thesis by simp
qed

subsection \<open>The deadline of a submission\<close>

text \<open>
  Claim C7. When the task exists, the caller is its assignee and it is not completed,
  a \<open>submitTaskResult\<close> at a time strictly after the deadline fails with
  \<open>DeadlineExceeded\<close> whatever the library says about the proof, and a submission at
  a time equal to the deadline does not fail with \<open>DeadlineExceeded\<close>: the check is
  \<open>block.timestamp \<le> deadline\<close>.
\<close>

theorem submitTaskResult_deadline:
  assumes "0 < length (title (tasks s k))" and "taskAssignments s k = a"
    and "\<not> isCompleted (tasks s k)"
  shows "(deadline (tasks s k) < now \<longrightarrow>
            submitTaskResult L a now k res pf s = Inl DeadlineExceeded)
       \<and> submitTaskResult L a (deadline (tasks s k)) k res pf s \<noteq> Inl DeadlineExceeded"
  using assms
  by (auto simp: submitTaskResult_def Let_def split: option.splits)

theorem submitTaskResult_deadline_witness:
  "deadline (tasks assigned ''t1'') = 3700
   \<and> checkSignatures sampleFHE [toBytes32 (encryptedData (tasks assigned ''t1''))] [42] [42]
   \<and> submitTaskResult sampleFHE 2 3701 ''t1'' [42] [42] assigned = Inl DeadlineExceeded
   \<and> \<not> isl (submitTaskResult sampleFHE 2 3700 ''t1'' [42] [42] assigned)"
proof -
  have a: "0 < length (title (tasks assigned ''t1''))"
    and b: "taskAssignments assigned ''t1'' = 2"
    and c: "\<not> isCompleted (tasks assigned ''t1'')"
    and d: "deadline (tasks assigned ''t1'') = 3700"
    by (simp_all add: sample_defs body_defs tx_defs)
  have e: "\<not> isl (submitTaskResult sampleFHE 2 3700 ''t1'' [42] [42] assigned)"
    by (simp add: sample_defs body_defs tx_defs)
  from submitTaskResult_deadline [OF a b c, of 3701 sampleFHE "[42]" "[42]"] d e
  show ?thesis by (simp add: sampleFHE_def)
qed

subsection \<open>The order of the checks of \<open>assignTask\<close>\<close>

text \<open>
  Claim C8. \<open>assignTask\<close> fails with the error of the first precondition, in the order
  task exists (\<open>NotFound\<close>), task active (\<open>NotActive\<close>), no prior assignment
  (\<open>AlreadyAssigned\<close>), worker registered (\<open>WorkerNotRegistered\<close>), that does not hold
  in the state it is called in, and it succeeds when all four hold.
\<close>

theorem assignTask_first_failure_wins:
  "(case first_failure (assignTask_preconditions a k s) of
      Some e \<Rightarrow> assignTask a k s = Inl e
    | None \<Rightarrow> \<not> isl (assignTask a k s))"
  by (simp add: assignTask_preconditions_def assignTask_def Let_def)

theorem assignTask_first_failure_wins_witness:
  "first_failure (assignTask_preconditions 3 ''t1'' (transact sampleFHE assigned tx_submit))
     = Some NotActive
   \<and> assignTask 3 ''t1'' (transact sampleFHE assigned tx_submit) = Inl NotActive"
  using assignTask_first_failure_wins [of 3 "''t1''" "transact sampleFHE assigned tx_submit"]
  by (simp add: assignTask_preconditions_def sample_defs body_defs tx_defs)

subsection \<open>Assignments\<close>

text \<open>
  Claim C9. \<open>taskAssignments\<close> is a function from keys to addresses, so a key has at
  most one assignee. When \<open>assignTask\<close> succeeds for the caller \<open>w\<close> in a state
  reached from the deployed contract, it records \<open>w\<close>, which is not the zero address,
  and the assignee of the key is \<open>w\<close> after every further sequence of transactions.
\<close>

theorem assignment_permanent:
  assumes "assignTask w k (run L deployed xs) = Inr s1"
  shows "taskAssignments s1 k = w \<and> w \<noteq> 0 \<and> taskAssignments (run L s1 ys) k = w"
proof -
  have "assignments_ok (run L deployed xs)"
    by (rule assignments_ok_run) (rule assignments_ok_deployed)
  then have zero: "workerAddress (workers (run L deployed xs) 0) = 0"
    by (simp add: assignments_ok_def)
  from assignTask_Inr [OF assms]
  have w: "taskAssignments s1 k = w"
    and reg: "workerAddress (workers (run L deployed xs) w) \<noteq> 0"
    by simp_all
  from reg zero have "w \<noteq> 0" by auto
  with w have "taskAssignments s1 k \<noteq> 0" by simp
  then have "taskAssignments (run L s1 ys) k = taskAssignments s1 k"
    by (rule assignment_run)
  with w \<open>w \<noteq> 0\<close> show ?thesis by simp
qed

theorem assignment_permanent_witness:
  "assignTask 2 ''t1'' (run sampleFHE deployed [tx_create, tx_register]) = Inr assigned
   \<and> taskAssignments (run sampleFHE assigned [tx_register3, tx_steal, tx_submit]) ''t1'' = 2"
proof -
  have a: "assignTask 2 ''t1'' (run sampleFHE deployed [tx_create, tx_register]) = Inr assigned"
    by (simp add: sample_defs body_defs tx_defs)
  from assignment_permanent [OF a, of "[tx_register3, tx_steal, tx_submit]"] a
  show ?thesis by simp
qed

subsection \<open>Existence is a non-empty title\<close>

text \<open>
  Claim C10. After a \<open>createTask\<close> with the empty title has succeeded for key \<open>k\<close>,
  \<open>assignTask\<close>, \<open>submitTaskResult\<close> and \<open>getTask\<close> on \<open>k\<close> fail with \<open>NotFound\<close>,
  and a further \<open>createTask\<close> on \<open>k\<close> whose ciphertext the library accepts passes the
  duplicate check, succeeds, replaces the record and appends \<open>k\<close> to \<open>taskIds\<close> a
  second time.
\<close>

theorem empty_title_is_nonexistent:
  assumes "createTask L a k [] e p r d s = Inr s1"
    and "fromExternal L a' e' p' = Some h" and "h \<noteq> 0"
  shows "assignTask b k s1 = Inl NotFound
       \<and> submitTaskResult L b now k res pf s1 = Inl NotFound
       \<and> getTask k s1 = Inl NotFound
       \<and> (\<exists>s2. createTask L a' k title' e' p' r' d' s1 = Inr s2
            \<and> tasks s2 k = \<lparr>title = title', encryptedData = h, rewardAmount = r',
                 deadline = d', requester = a', isActive = True, isCompleted = False\<rparr>
            \<and> taskIds s2 = taskIds s @ [k, k])"
  using assms
  by (auto simp: body_defs getTask_def split: if_splits option.splits)

theorem empty_title_is_nonexistent_witness:
  "getTask ''t2'' (run sampleFHE deployed [tx_create_untitled]) = Inl NotFound
   \<and> getAllTaskIds (run sampleFHE deployed [tx_create_untitled]) = [''t2'']
   \<and> (\<exists>s2. createTask sampleFHE 3 ''t2'' ''other'' 9 [1] 5 9999
               (run sampleFHE deployed [tx_create_untitled]) = Inr s2
        \<and> requester (tasks s2 ''t2'') = 3 \<and> taskIds s2 = [''t2'', ''t2''])"
proof -
  have a: "createTask sampleFHE 1 ''t2'' [] 7 [1] 100 3700 deployed
             = Inr (run sampleFHE deployed [tx_create_untitled])"
    by (simp add: tx_create_untitled_def sample_defs body_defs tx_defs)
  have b: "fromExternal sampleFHE 3 9 [1] = Some 9" and c: "(9::euint32) \<noteq> 0"
    by (simp_all add: sampleFHE_def)
  have d: "taskIds deployed = []" by (simp add: deployed_def)
  have f: "getAllTaskIds (run sampleFHE deployed [tx_create_untitled]) = [''t2'']"
    by (simp add: getAllTaskIds_def tx_create_untitled_def sample_defs body_defs tx_defs)
  from empty_title_is_nonexistent [OF a b c, of 2 103 "[42]" "[42]" "''other''" 5 9999] d f
  show ?thesis by auto
qed

end
